theory Spec2Isabelle
  imports Complex_Main
begin

section \<open>Spinner reference count (editor.ts, lines 460--478)\<close>

text \<open>
  The constructor keeps a closure variable \<^verbatim>\<open>spinnerCount\<close> and a \<^verbatim>\<open>Spinner\<close> widget of
  which only the \<^verbatim>\<open>hidden\<close> property is written. Both are the state of the two
  handlers. The count is a JavaScript number that only ever holds small
  integers; it is an \<open>int\<close> here (exact below \<open>2^53\<close>). The widget starts hidden.
\<close>

record spinner_state =
  spinnerCount :: int
  spinnerHidden :: bool

datatype spinner_event = StartSpinner | StopSpinner

text \<open>
  \<^verbatim>\<open>events.on('startSpinner', () => { spinnerCount++;
       if (spinnerCount === 1) { spinner.hidden = false; } });\<close>
  \<^verbatim>\<open>events.on('stopSpinner', () => { spinnerCount = Math.max(0, spinnerCount - 1);
       if (spinnerCount === 0) { spinner.hidden = true; } });\<close>
\<close>

fun spinnerHandle :: "spinner_state \<Rightarrow> spinner_event \<Rightarrow> spinner_state" where
  "spinnerHandle s StartSpinner =
     (let c = spinnerCount s + 1
      in \<lparr>spinnerCount = c, spinnerHidden = (if c = 1 then False else spinnerHidden s)\<rparr>)"
| "spinnerHandle s StopSpinner =
     (let c = max 0 (spinnerCount s - 1)
      in \<lparr>spinnerCount = c, spinnerHidden = (if c = 0 then True else spinnerHidden s)\<rparr>)"

definition spinnerInit :: spinner_state where
  "spinnerInit = \<lparr>spinnerCount = 0, spinnerHidden = True\<rparr>"

definition spinnerRun :: "spinner_event list \<Rightarrow> spinner_state" where
  "spinnerRun es = foldl spinnerHandle spinnerInit es"

definition starts :: "spinner_event list \<Rightarrow> int" where
  "starts es = int (length (filter (\<lambda>e. e = StartSpinner) es))"

definition stops :: "spinner_event list \<Rightarrow> int" where
  "stops es = int (length (filter (\<lambda>e. e = StopSpinner) es))"

text \<open>
  The balance of a sequence, and the least balance over all its prefixes, the empty
  prefix (of balance 0) included. The least balance is negative exactly when some
  \<^verbatim>\<open>stopSpinner\<close> arrived with no start left to match it.
\<close>

definition balance :: "spinner_event list \<Rightarrow> int" where
  "balance es = starts es - stops es"

definition lowest :: "spinner_event list \<Rightarrow> int" where
  "lowest es = Min (set (map (\<lambda>n. balance (take n es)) [0..<Suc (length es)]))"

section \<open>Progress overlay (editor.ts, lines 480--502)\<close>

text \<open>
  The three handlers act on the \<^verbatim>\<open>Progress\<close> widget only through its \<^verbatim>\<open>hidden\<close>
  property and its three setters. What a handler does is the list of these calls,
  in order.
\<close>

datatype progress_call =
    SetHidden bool
  | SetHeader string
  | SetText string
  | SetProgress real

text \<open>
  The options object of \<^verbatim>\<open>progressUpdate\<close>:
  \<^verbatim>\<open>{ text?: string, progress?: number }\<close>; an absent (undefined) field is \<open>None\<close>. The
  spec calls the \<^verbatim>\<open>progress\<close> field "value".
\<close>

record progress_options =
  optText :: "string option"
  optProgress :: "real option"

text \<open>
  \<^verbatim>\<open>events.on('progressStart', (header) => { progress.hidden = false;
       progress.setHeader(header); });\<close>
\<close>

definition progressStart :: "string \<Rightarrow> progress_call list" where
  "progressStart hdr = [SetHidden False, SetHeader hdr]"

text \<open>
  \<^verbatim>\<open>events.on('progressUpdate', (options) => {
       if (options.text !== undefined) { progress.setText(options.text); }
       if (options.progress !== undefined) { progress.setProgress(options.progress); } });\<close>
\<close>

definition progressUpdate :: "progress_options \<Rightarrow> progress_call list" where
  "progressUpdate options =
     (case optText options of None \<Rightarrow> [] | Some t \<Rightarrow> [SetText t]) @
     (case optProgress options of None \<Rightarrow> [] | Some v \<Rightarrow> [SetProgress v])"

text \<open>\<^verbatim>\<open>events.on('progressEnd', () => { progress.hidden = true; });\<close>\<close>

definition progressEnd :: "progress_call list" where
  "progressEnd = [SetHidden True]"

datatype progress_event =
    ProgressStart string
  | ProgressUpdate progress_options
  | ProgressEnd

fun progressCalls :: "progress_event \<Rightarrow> progress_call list" where
  "progressCalls (ProgressStart hdr) = progressStart hdr"
| "progressCalls (ProgressUpdate options) = progressUpdate options"
| "progressCalls ProgressEnd = progressEnd"

text \<open>
  Modelled from the spec: the \<^verbatim>\<open>Progress\<close> widget (\<^verbatim>\<open>./progress\<close>) is defined outside
  \<^verbatim>\<open>editor.ts\<close>. The spec's data model gives its state as header, text and value,
  "independently settable fields", with visibility toggled by the start and end
  events. Each setter therefore writes its own field and nothing else.
\<close>

record progress =
  progressHidden :: bool
  progressHeader :: string
  progressText :: string
  progressValue :: real

fun applyCall :: "progress \<Rightarrow> progress_call \<Rightarrow> progress" where
  "applyCall p (SetHidden b) = p\<lparr>progressHidden := b\<rparr>"
| "applyCall p (SetHeader h) = p\<lparr>progressHeader := h\<rparr>"
| "applyCall p (SetText t) = p\<lparr>progressText := t\<rparr>"
| "applyCall p (SetProgress v) = p\<lparr>progressValue := v\<rparr>"

definition progressHandle :: "progress \<Rightarrow> progress_event \<Rightarrow> progress" where
  "progressHandle p ev = foldl applyCall p (progressCalls ev)"

definition progressRun :: "progress \<Rightarrow> progress_event list \<Rightarrow> progress" where
  "progressRun p es = foldl progressHandle p es"

text \<open>The value an event hands to \<^verbatim>\<open>setProgress\<close>, if any.\<close>

fun carriedValue :: "progress_event \<Rightarrow> real option" where
  "carriedValue (ProgressUpdate options) = optProgress options"
| "carriedValue _ = None"

definition inUnitInterval :: "real \<Rightarrow> bool" where
  "inUnitInterval v \<longleftrightarrow> 0 \<le> v \<and> v \<le> 1"

definition carriesUnitValue :: "progress_event \<Rightarrow> bool" where
  "carriesUnitValue e = (case carriedValue e of None \<Rightarrow> True | Some v \<Rightarrow> inUnitInterval v)"

text \<open>
  Modelled from the spec: the setter \<^verbatim>\<open>setProgress\<close> of the \<^verbatim>\<open>Progress\<close> widget is defined
  outside \<^verbatim>\<open>editor.ts\<close>. The spec gives the stored value as a float in \<open>[0,1]\<close> and says
  that a value handed in "is always clamped/asserted within [0,1]". The handler
  does neither, so the bound is the setter's, and both readings are modelled: the
  setter clamps its argument into \<open>[0,1]\<close>, or it asserts the range and, for a value
  outside, throws before it writes (the call is the last of its handler).
\<close>

datatype bound_policy = Clamped | Asserted

fun boundedValue :: "bound_policy \<Rightarrow> real \<Rightarrow> real option" where
  "boundedValue Clamped v = Some (max 0 (min 1 v))"
| "boundedValue Asserted v = (if 0 \<le> v \<and> v \<le> 1 then Some v else None)"

fun applyCallBounded :: "bound_policy \<Rightarrow> progress \<Rightarrow> progress_call \<Rightarrow> progress" where
  "applyCallBounded policy p (SetProgress v) =
     (case boundedValue policy v of None \<Rightarrow> p | Some r \<Rightarrow> applyCall p (SetProgress r))"
| "applyCallBounded policy p (SetHidden b) = applyCall p (SetHidden b)"
| "applyCallBounded policy p (SetHeader h) = applyCall p (SetHeader h)"
| "applyCallBounded policy p (SetText t) = applyCall p (SetText t)"

definition progressHandleBounded :: "bound_policy \<Rightarrow> progress \<Rightarrow> progress_event \<Rightarrow> progress" where
  "progressHandleBounded policy p ev = foldl (applyCallBounded policy) p (progressCalls ev)"

definition progressRunBounded :: "bound_policy \<Rightarrow> progress \<Rightarrow> progress_event list \<Rightarrow> progress" where
  "progressRunBounded policy p es = foldl (progressHandleBounded policy) p es"

section \<open>Screen-space annotation (editor.ts, lines 219--265)\<close>

text \<open>
  Coordinates are JavaScript numbers: the finite doubles, as the reals they denote,
  the two infinities and NaN. The comparisons of \<^verbatim>\<open>updateNote\<close> are exact on them. An
  arithmetic operation on two finite numbers returns the exact result rounded to a
  double, which overflows to an infinity; the rounding \<open>rnd\<close> is a parameter, so
  nothing is assumed about how it rounds.
\<close>

datatype jsnum = Fin real | PosInfinity | NegInfinity | NaN

text \<open>\<^verbatim>\<open>a <= b\<close>; every comparison with NaN is false.\<close>

fun jle :: "jsnum \<Rightarrow> jsnum \<Rightarrow> bool" where
  "jle NaN _ = False"
| "jle _ NaN = False"
| "jle (Fin a) (Fin b) = (a \<le> b)"
| "jle NegInfinity _ = True"
| "jle _ PosInfinity = True"
| "jle PosInfinity _ = False"
| "jle _ NegInfinity = False"

text \<open>\<^verbatim>\<open>a >= b\<close>\<close>

definition jge :: "jsnum \<Rightarrow> jsnum \<Rightarrow> bool" where
  "jge a b = jle b a"

text \<open>\<^verbatim>\<open>a + b\<close>\<close>

fun jadd :: "(real \<Rightarrow> jsnum) \<Rightarrow> jsnum \<Rightarrow> jsnum \<Rightarrow> jsnum" where
  "jadd rnd NaN _ = NaN"
| "jadd rnd _ NaN = NaN"
| "jadd rnd (Fin a) (Fin b) = rnd (a + b)"
| "jadd rnd PosInfinity NegInfinity = NaN"
| "jadd rnd NegInfinity PosInfinity = NaN"
| "jadd rnd PosInfinity _ = PosInfinity"
| "jadd rnd _ PosInfinity = PosInfinity"
| "jadd rnd NegInfinity _ = NegInfinity"
| "jadd rnd _ NegInfinity = NegInfinity"

definition infTimes :: "bool \<Rightarrow> real \<Rightarrow> jsnum" where
  "infTimes positive a =
     (if a = 0 then NaN
      else if (0 < a) = positive then PosInfinity else NegInfinity)"

text \<open>\<^verbatim>\<open>a * b\<close>\<close>

fun jmul :: "(real \<Rightarrow> jsnum) \<Rightarrow> jsnum \<Rightarrow> jsnum \<Rightarrow> jsnum" where
  "jmul rnd NaN _ = NaN"
| "jmul rnd _ NaN = NaN"
| "jmul rnd (Fin a) (Fin b) = rnd (a * b)"
| "jmul rnd (Fin a) PosInfinity = infTimes True a"
| "jmul rnd (Fin a) NegInfinity = infTimes False a"
| "jmul rnd PosInfinity (Fin b) = infTimes True b"
| "jmul rnd NegInfinity (Fin b) = infTimes False b"
| "jmul rnd PosInfinity PosInfinity = PosInfinity"
| "jmul rnd NegInfinity NegInfinity = PosInfinity"
| "jmul rnd PosInfinity NegInfinity = NegInfinity"
| "jmul rnd NegInfinity PosInfinity = NegInfinity"

datatype vec3 = Vec3 (vec_x: jsnum) (vec_y: jsnum) (vec_z: jsnum)

text \<open>
  \<^verbatim>\<open>(window as any).scene\<close>, read on every call. \<^verbatim>\<open>worldToScreen(world, screen)\<close>
  writes its result into its second argument; here it returns the new value of
  that argument. A missing or falsy link of the chain
  \<^verbatim>\<open>scene?.camera?.worldToScreen\<close> is \<open>None\<close>.
\<close>

datatype camera = Camera (worldToScreen: "(vec3 \<Rightarrow> vec3 \<Rightarrow> vec3) option")

datatype scene = Scene (camera: "camera option")

record rect =
  rectLeft :: real
  rectTop :: real
  rectWidth :: real
  rectHeight :: real

text \<open>
  What a call of \<^verbatim>\<open>updateNote\<close> reads from the host: the global scene, the canvas's
  bounding rectangle, and the rounding of the host's arithmetic.
\<close>

record tick_env =
  windowScene :: "scene option"
  canvasRect :: rect
  roundNearest :: "real \<Rightarrow> jsnum"

datatype display = DisplayUnset | DisplayNone | DisplayFlex

text \<open>\<^verbatim>\<open>note.style\<close>: \<open>styleLeft = Some v\<close> is the string \<^verbatim>\<open>`${v}px`\<close>.\<close>

record note_style =
  styleDisplay :: display
  styleLeft :: "jsnum option"
  styleTop :: "jsnum option"

record viewer_state =
  noteStyle :: note_style
  noteScreen :: vec3

definition VIEWER_NOTE_position :: vec3 where
  "VIEWER_NOTE_position =
     Vec3 (Fin 3.3191983272917707) (Fin 3.0731552014743144) (Fin (- 76.79501217896394))"

definition noteWorld :: vec3 where
  "noteWorld = VIEWER_NOTE_position"

definition cameraCapability :: "scene option \<Rightarrow> (vec3 \<Rightarrow> vec3 \<Rightarrow> vec3) option" where
  "cameraCapability sc =
     (case sc of
        None \<Rightarrow> None
      | Some s \<Rightarrow> (case camera s of None \<Rightarrow> None | Some c \<Rightarrow> worldToScreen c))"

definition inside :: "vec3 \<Rightarrow> bool" where
  "inside v \<longleftrightarrow>
     jge (vec_z v) (Fin 0) \<and> jle (vec_z v) (Fin 1) \<and>
     jge (vec_x v) (Fin 0) \<and> jle (vec_x v) (Fin 1) \<and>
     jge (vec_y v) (Fin 0) \<and> jle (vec_y v) (Fin 1)"

definition updateNote :: "tick_env \<Rightarrow> viewer_state \<Rightarrow> viewer_state" where
  "updateNote env st =
     (case cameraCapability (windowScene env) of
        None \<Rightarrow> st\<lparr>noteStyle := (noteStyle st)\<lparr>styleDisplay := DisplayNone\<rparr>\<rparr>
      | Some w2s \<Rightarrow>
          (let scr = w2s noteWorld (noteScreen st)
           in if \<not> inside scr
              then \<lparr>noteStyle = (noteStyle st)\<lparr>styleDisplay := DisplayNone\<rparr>,
                    noteScreen = scr\<rparr>
              else (let r = canvasRect env; rnd = roundNearest env
                    in \<lparr>noteStyle =
                          \<lparr>styleDisplay = DisplayFlex,
                           styleLeft = Some (jadd rnd (Fin (rectLeft r))
                                               (jmul rnd (vec_x scr) (Fin (rectWidth r)))),
                           styleTop = Some (jadd rnd (Fin (rectTop r))
                                              (jmul rnd (vec_y scr) (Fin (rectHeight r))))\<rparr>,
                        noteScreen = scr\<rparr>)))"

section \<open>The constructor (editor.ts, lines 67--334)\<close>

text \<open>
  What the constructor builds, as far as the two modes differ: the widgets appended
  to the three containers, the elements appended to \<^verbatim>\<open>document.body\<close>, and the
  subscribers of \<^verbatim>\<open>prerender\<close> and of the window's \<^verbatim>\<open>resize\<close>, in the order of the
  source.
\<close>

datatype widget =
    AppLabel | CursorLabel | ToolsContainer | ScenePanel | ViewPanel | ColorPanel
  | BottomToolbar | RightToolbar | ModeToggle | Menu | ViewCube | CanvasContainer
  | TimelinePanel | DataPanel | Popup | ExportPopup | PublishSettingsDialog
  | ImageSettingsDialog | VideoSettingsDialog | ShortcutsPopup | AboutPopup

datatype elem =
  Elem (tag: string) (elemId: string) (className: string) (textContent: string)
       (children: "elem list")

datatype handler = UpdateNote | ViewCubeUpdate

datatype ui_event = Prerender | Resize

record editor_ui =
  canvasContainer :: "widget list"
  mainContainer :: "widget list"
  topContainer :: "widget list"
  body :: "elem list"
  prerenderHandlers :: "handler list"
  resizeListeners :: "handler list"

text \<open>
  The element tree only: a button's listeners (a click applies the preset of its
  key) are not part of it.
\<close>

definition makeButton :: "string \<Rightarrow> string \<Rightarrow> elem" where
  "makeButton label key = Elem ''button'' '''' ''viewer-camera-button'' label []"

definition presets :: elem where
  "presets =
     Elem ''div'' ''viewer-camera-presets'' '''' ''''
       [makeButton ''Image 1'' ''image1'',
        makeButton ''Image 2'' ''image2'',
        makeButton ''Image 3'' ''image3'']"

definition VIEWER_NOTE_label :: string where
  "VIEWER_NOTE_label = ''Wooden window frame''"

text \<open>The element \<^verbatim>\<open>note\<close> of the source.\<close>

definition noteElem :: elem where
  "noteElem =
     Elem ''div'' ''viewer-annotation'' '''' ''''
       [Elem ''div'' '''' ''viewer-annotation-arrow'' '''' [],
        Elem ''div'' '''' ''viewer-annotation-line'' '''' [],
        Elem ''div'' '''' ''viewer-annotation-label'' VIEWER_NOTE_label []]"

definition appContainer :: elem where
  "appContainer =
     Elem ''div'' ''app-container'' '''' ''''
       [Elem ''div'' ''editor-container'' '''' '''' [],
        Elem ''div'' ''top-container'' '''' '''' [],
        Elem ''div'' ''tooltips-container'' '''' '''' []]"

text \<open>\<^verbatim>\<open>const viewerOnly = options.viewerOnly ?? false;\<close>\<close>

definition EditorUI :: "bool option \<Rightarrow> editor_ui" where
  "EditorUI viewerOnlyOption =
     (let viewerOnly = (case viewerOnlyOption of None \<Rightarrow> False | Some b \<Rightarrow> b)
      in \<lparr>canvasContainer =
            [AppLabel, CursorLabel, ToolsContainer] @
            (if \<not> viewerOnly
             then [ScenePanel, ViewPanel, ColorPanel, BottomToolbar, RightToolbar,
                   ModeToggle, Menu]
             else [RightToolbar]) @
            [ViewCube],
          mainContainer =
            [CanvasContainer] @ (if \<not> viewerOnly then [TimelinePanel, DataPanel] else []),
          topContainer =
            [Popup, ExportPopup, PublishSettingsDialog, ImageSettingsDialog,
             VideoSettingsDialog] @
            (if \<not> viewerOnly then [ShortcutsPopup] else []) @
            [AboutPopup],
          body = (if \<not> viewerOnly then [] else [presets, noteElem]) @ [appContainer],
          prerenderHandlers =
            (if \<not> viewerOnly then [] else [UpdateNote]) @ [ViewCubeUpdate],
          resizeListeners = (if \<not> viewerOnly then [] else [UpdateNote])\<rparr>)"

text \<open>All elements of a subtree, the root first.\<close>

fun descendants :: "elem \<Rightarrow> elem list" where
  "descendants (Elem t i c x ks) = Elem t i c x ks # concat (map descendants ks)"

definition allElems :: "editor_ui \<Rightarrow> elem list" where
  "allElems ui = concat (map descendants (body ui))"

text \<open>
  Delivery of an event to its subscribers, in subscription order. The view cube's
  subscriber does not touch the annotation.
\<close>

definition handlersFor :: "editor_ui \<Rightarrow> ui_event \<Rightarrow> handler list" where
  "handlersFor ui ev =
     (case ev of Prerender \<Rightarrow> prerenderHandlers ui | Resize \<Rightarrow> resizeListeners ui)"

fun runHandler :: "tick_env \<Rightarrow> handler \<Rightarrow> viewer_state \<Rightarrow> viewer_state" where
  "runHandler env UpdateNote st = updateNote env st"
| "runHandler env ViewCubeUpdate st = st"

definition deliver :: "editor_ui \<Rightarrow> ui_event \<Rightarrow> tick_env \<Rightarrow> viewer_state \<Rightarrow> viewer_state" where
  "deliver ui ev env st = fold (runHandler env) (handlersFor ui ev) st"

section \<open>Dialog flows (editor.ts, lines 346--450)\<close>

text \<open>
  A flow is an async function that calls collaborators reached through the bus, the
  dialogs and the host. Its model takes what each collaborator answers as an
  environment and returns the calls it made, in order. The popup and the settings
  dialogs are defined outside \<^verbatim>\<open>editor.ts\<close>: as the spec's interface table and data
  model have it, \<^verbatim>\<open>showPopup\<close> resolves with the user's acknowledgement and a dialog
  resolves with settings or with nothing. A falsy answer is \<open>None\<close>.
  \<^verbatim>\<open>localize\<close> (\<^verbatim>\<open>./localization\<close>) is a parameter.
\<close>

record popup_options =
  popupType :: string
  popupHeader :: string
  popupMessage :: string

subsection \<open>Publish\<close>

datatype ('u, 's) publish_call =
    InvokeUserStatus
  | PublishShowPopup popup_options
  | PublishDialogShow 'u
  | InvokeScenePublish 's

text \<open>What the async function resolves with: \<^verbatim>\<open>return false\<close>, or falling off the end.\<close>

datatype flow_result = ReturnedFalse | ReturnedUndefined

record ('u, 's) publish_env =
  localize :: "string \<Rightarrow> string"
  userStatus :: "'u option"
  publishSettingsDialog :: "'u \<Rightarrow> 's option"

definition showPublishSettingsDialog ::
  "('u, 's) publish_env \<Rightarrow> ('u, 's) publish_call list \<times> flow_result" where
  "showPublishSettingsDialog env =
     (case userStatus env of
        None \<Rightarrow>
          ([InvokeUserStatus,
            PublishShowPopup
              \<lparr>popupType = ''error'',
               popupHeader = localize env ''popup.error'',
               popupMessage = localize env ''popup.publish.please-log-in''\<rparr>],
           ReturnedFalse)
      | Some status \<Rightarrow>
          (case publishSettingsDialog env status of
             None \<Rightarrow> ([InvokeUserStatus, PublishDialogShow status], ReturnedUndefined)
           | Some publishSettings \<Rightarrow>
               ([InvokeUserStatus, PublishDialogShow status,
                 InvokeScenePublish publishSettings],
                ReturnedUndefined)))"

text \<open>The notifications, dialog openings and \<^verbatim>\<open>scene.publish\<close> invocations of a run.\<close>

fun publishPopupsOf :: "('u, 's) publish_call list \<Rightarrow> popup_options list" where
  "publishPopupsOf [] = []"
| "publishPopupsOf (PublishShowPopup p # cs) = p # publishPopupsOf cs"
| "publishPopupsOf (_ # cs) = publishPopupsOf cs"

fun dialogsOf :: "('u, 's) publish_call list \<Rightarrow> 'u list" where
  "dialogsOf [] = []"
| "dialogsOf (PublishDialogShow u # cs) = u # dialogsOf cs"
| "dialogsOf (_ # cs) = dialogsOf cs"

fun publishedOf :: "('u, 's) publish_call list \<Rightarrow> 's list" where
  "publishedOf [] = []"
| "publishedOf (InvokeScenePublish s # cs) = s # publishedOf cs"
| "publishedOf (_ # cs) = publishedOf cs"

subsection \<open>Video export\<close>

text \<open>
  A thrown value, as far as the catch block looks at it: a \<^verbatim>\<open>DOMException\<close>, with its
  name and message; null or undefined, on which reading \<^verbatim>\<open>message\<close> throws in turn; or
  any other value, with its \<^verbatim>\<open>message\<close> property (\<open>None\<close> when null or undefined) and
  the value itself. The template literal converts what it is given to a string,
  and the conversion of some values (a symbol, an object without a usable
  \<^verbatim>\<open>toString\<close>) throws.
\<close>

datatype shown = Shown string | Throws

datatype thrown =
    DOMException string string
  | OtherError "shown option" shown
  | Nullish

record video_settings =
  format :: string
  codec :: string

datatype file_handle = FileHandle nat

datatype writable = Writable nat

text \<open>One entry of \<^verbatim>\<open>filePickerTypes\<close>; \<^verbatim>\<open>accept\<close> is an object, kept as its entries.\<close>

record picker_type =
  description :: string
  accept :: "(string \<times> string list) list"

record picker_options =
  pickerId :: string
  types :: "picker_type list"
  suggestedName :: string

datatype video_call =
    VideoDialogShow
  | InvokeDocName
  | ShowSaveFilePicker picker_options
  | CreateWritable file_handle
  | InvokeRenderVideo video_settings "writable option"
  | VideoShowPopup popup_options

text \<open>
  \<^verbatim>\<open>pathGetExtension\<close> is \<^verbatim>\<open>path.getExtension\<close> of the playcanvas library;
  \<^verbatim>\<open>showSaveFilePicker\<close> is \<open>None\<close> where the host has no \<^verbatim>\<open>window.showSaveFilePicker\<close>.
  The picker, \<^verbatim>\<open>createWritable\<close> and \<^verbatim>\<open>render.video\<close> either throw (\<open>Inl\<close>) or answer.
\<close>

record video_env =
  videoSettingsDialog :: "video_settings option"
  docName :: "string option"
  pathGetExtension :: "string \<Rightarrow> string"
  showSaveFilePicker :: "(picker_options \<Rightarrow> thrown + file_handle) option"
  createWritable :: "file_handle \<Rightarrow> thrown + writable"
  renderVideo :: "video_settings \<Rightarrow> writable option \<Rightarrow> thrown + unit"

text \<open>
  \<^verbatim>\<open>filename.substring(0, filename.length - path.getExtension(filename).length)\<close>:
  a negative end counts as 0, as the subtraction on \<open>nat\<close> does.
\<close>

definition removeExtension :: "(string \<Rightarrow> string) \<Rightarrow> string \<Rightarrow> string" where
  "removeExtension getExt filename = take (length filename - length (getExt filename)) filename"

definition codecNames :: "(string \<times> string) list" where
  "codecNames =
     [(''h264'', ''H.264''), (''h265'', ''H.265''), (''vp9'', ''VP9''), (''av1'', ''AV1'')]"

text \<open>\<^verbatim>\<open>toUpperCase\<close> on the ASCII letters, which codec identifiers consist of.\<close>

definition toUpperChar :: "char \<Rightarrow> char" where
  "toUpperChar c =
     (let n = (of_char c :: nat)
      in if of_char CHR ''a'' \<le> n \<and> n \<le> of_char CHR ''z'' then char_of (n - 32) else c)"

definition toUpperCase :: "string \<Rightarrow> string" where
  "toUpperCase s = map toUpperChar s"

text \<open>
  \<^verbatim>\<open>codecNames[videoSettings.codec] || videoSettings.codec.toUpperCase()\<close>, on the
  table's own keys (every value of the table is a non-empty string). A codec
  string that names a property inherited from \<^verbatim>\<open>Object.prototype\<close> is outside the
  model.
\<close>

definition codecName :: "string \<Rightarrow> string" where
  "codecName c = (case map_of codecNames c of Some n \<Rightarrow> n | None \<Rightarrow> toUpperCase c)"

text \<open>The if-chain on \<^verbatim>\<open>videoSettings.format\<close>: \<^verbatim>\<open>fileExtension\<close> and \<^verbatim>\<open>filePickerTypes\<close>.\<close>

definition formatDescriptor :: "string \<Rightarrow> string \<Rightarrow> string \<times> picker_type list" where
  "formatDescriptor fmt cn =
     (if fmt = ''webm'' then
        (''.webm'',
         [\<lparr>description = ''WebM Video ('' @ cn @ '')'',
           accept = [(''video/webm'', [''.webm''])]\<rparr>])
      else if fmt = ''mov'' then
        (''.mov'',
         [\<lparr>description = ''MOV Video ('' @ cn @ '')'',
           accept = [(''video/quicktime'', [''.mov''])]\<rparr>])
      else if fmt = ''mkv'' then
        (''.mkv'',
         [\<lparr>description = ''MKV Video ('' @ cn @ '')'',
           accept = [(''video/x-matroska'', [''.mkv''])]\<rparr>])
      else
        (''.mp4'',
         [\<lparr>description = ''MP4 Video ('' @ cn @ '')'',
           accept = [(''video/mp4'', [''.mp4''])]\<rparr>]))"

text \<open>\<^verbatim>\<open>`${removeExtension(docName ?? 'supersplat')}${fileExtension}`\<close>\<close>

definition suggested :: "video_env \<Rightarrow> video_settings \<Rightarrow> string" where
  "suggested env videoSettings =
     removeExtension (pathGetExtension env)
       (case docName env of None \<Rightarrow> ''supersplat'' | Some n \<Rightarrow> n)
     @ fst (formatDescriptor (format videoSettings) (codecName (codec videoSettings)))"

definition pickerOptions :: "video_env \<Rightarrow> video_settings \<Rightarrow> picker_options" where
  "pickerOptions env videoSettings =
     \<lparr>pickerId = ''SuperSplatVideoFileExport'',
      types = snd (formatDescriptor (format videoSettings) (codecName (codec videoSettings))),
      suggestedName = suggested env videoSettings\<rparr>"

text \<open>\<^verbatim>\<open>await events.invoke('render.video', videoSettings, writable)\<close>, after the calls \<open>cs\<close>.\<close>

definition renderVideoStep ::
  "video_env \<Rightarrow> video_settings \<Rightarrow> video_call list \<Rightarrow> writable option
     \<Rightarrow> video_call list \<times> thrown option" where
  "renderVideoStep env videoSettings cs w =
     (cs @ [InvokeRenderVideo videoSettings w],
      (case renderVideo env videoSettings w of Inl e \<Rightarrow> Some e | Inr _ \<Rightarrow> None))"

text \<open>The body of the \<^verbatim>\<open>try\<close> block: the calls made, and what was thrown, if anything.\<close>

definition videoTry :: "video_env \<Rightarrow> video_settings \<Rightarrow> video_call list \<times> thrown option" where
  "videoTry env videoSettings =
     (case showSaveFilePicker env of
        None \<Rightarrow> renderVideoStep env videoSettings [InvokeDocName] None
      | Some picker \<Rightarrow>
          (let opts = pickerOptions env videoSettings
           in case picker opts of
                Inl e \<Rightarrow> ([InvokeDocName, ShowSaveFilePicker opts], Some e)
              | Inr fileHandle \<Rightarrow>
                  (case createWritable env fileHandle of
                     Inl e \<Rightarrow>
                       ([InvokeDocName, ShowSaveFilePicker opts, CreateWritable fileHandle],
                        Some e)
                   | Inr w \<Rightarrow>
                       renderVideoStep env videoSettings
                         [InvokeDocName, ShowSaveFilePicker opts, CreateWritable fileHandle]
                         (Some w))))"

text \<open>\<^verbatim>\<open>error instanceof DOMException && error.name === 'AbortError'\<close>\<close>

fun isAbortError :: "thrown \<Rightarrow> bool" where
  "isAbortError (DOMException name message) = (name = ''AbortError'')"
| "isAbortError (OtherError message str) = False"
| "isAbortError Nullish = False"

text \<open>\<^verbatim>\<open>`${error.message ?? error}`\<close>: the text, unless evaluating it throws.\<close>

fun errorText :: "thrown \<Rightarrow> shown" where
  "errorText (DOMException name message) = Shown message"
| "errorText (OtherError (Some message) str) = message"
| "errorText (OtherError None str) = str"
| "errorText Nullish = Throws"

definition failurePopup :: "string \<Rightarrow> popup_options" where
  "failurePopup txt =
     \<lparr>popupType = ''error'',
      popupHeader = ''Failed to render video'',
      popupMessage = [CHR 0x27] @ txt @ [CHR 0x27]\<rparr>"

text \<open>
  The handler. Where the catch block throws while it builds the message, the
  run ends there, with no notification, and the async function rejects.
\<close>

definition showVideoSettingsDialog :: "video_env \<Rightarrow> video_call list" where
  "showVideoSettingsDialog env =
     (case videoSettingsDialog env of
        None \<Rightarrow> [VideoDialogShow]
      | Some videoSettings \<Rightarrow>
          (case videoTry env videoSettings of
             (cs, None) \<Rightarrow> VideoDialogShow # cs
           | (cs, Some e) \<Rightarrow>
               if isAbortError e then VideoDialogShow # cs
               else (case errorText e of
                       Throws \<Rightarrow> VideoDialogShow # cs
                     | Shown txt \<Rightarrow> VideoDialogShow # cs @ [VideoShowPopup (failurePopup txt)])))"

definition showVideoSettingsDialogRejects :: "video_env \<Rightarrow> bool" where
  "showVideoSettingsDialogRejects env =
     (case videoSettingsDialog env of
        None \<Rightarrow> False
      | Some videoSettings \<Rightarrow>
          (case snd (videoTry env videoSettings) of
             None \<Rightarrow> False
           | Some e \<Rightarrow> \<not> isAbortError e \<and> errorText e = Throws))"

text \<open>The error notifications of a run, and its \<^verbatim>\<open>render.video\<close> invocations.\<close>

fun popupsOf :: "video_call list \<Rightarrow> popup_options list" where
  "popupsOf [] = []"
| "popupsOf (VideoShowPopup p # cs) = p # popupsOf cs"
| "popupsOf (_ # cs) = popupsOf cs"


text \<open>
  \<^verbatim>\<open>path.getExtension\<close> as the playcanvas library defines it, for runs on concrete
  names: the text after the last dot of the part before a question mark, with the
  dot, or nothing when that text is the whole name.
\<close>

definition lastSegment :: "string \<Rightarrow> string" where
  "lastSegment s = rev (takeWhile (\<lambda>c. c \<noteq> CHR ''.'') (rev s))"

definition getExtension :: "string \<Rightarrow> string" where
  "getExtension s =
     (let ext = lastSegment (takeWhile (\<lambda>c. c \<noteq> CHR ''?'') s)
      in if ext \<noteq> s then CHR ''.'' # ext else '''')"

section \<open>Spinner: results\<close>

lemma starts_snoc:
  "starts (es @ [e]) = starts es + (if e = StartSpinner then 1 else 0)"
  by (simp add: starts_def)

lemma stops_snoc:
  "stops (es @ [e]) = stops es + (if e = StopSpinner then 1 else 0)"
  by (simp add: stops_def)

lemma balance_snoc:
  "balance (es @ [e]) = balance es + (if e = StartSpinner then 1 else - 1)"
  by (cases e) (simp_all add: balance_def starts_snoc stops_snoc)

lemma spinnerRun_snoc: "spinnerRun (es @ [e]) = spinnerHandle (spinnerRun es) e"
  by (simp add: spinnerRun_def)

lemma spinnerRun_Nil: "spinnerRun [] = spinnerInit"
  by (simp add: spinnerRun_def)

lemma spinner_invariant:
  "0 \<le> spinnerCount (spinnerRun es) \<and>
   (spinnerHidden (spinnerRun es) \<longleftrightarrow> spinnerCount (spinnerRun es) = 0)"
proof (induction es rule: rev_induct)
  case Nil
  show ?case by (simp add: spinnerRun_Nil spinnerInit_def)
next
  case (snoc e es)
  then show ?case
    by (cases e) (auto simp: spinnerRun_snoc Let_def max_def)
qed

lemma lowest_snoc: "lowest (es @ [e]) = min (balance (es @ [e])) (lowest es)"
proof -
  let ?A = "set (map (\<lambda>n. balance (take n es)) [0..<Suc (length es)])"
  have "map (\<lambda>n. balance (take n (es @ [e]))) [0..<Suc (length es)] =
        map (\<lambda>n. balance (take n es)) [0..<Suc (length es)]"
    by (rule map_cong) auto
  then have seteq:
    "set (map (\<lambda>n. balance (take n (es @ [e]))) [0..<Suc (length (es @ [e]))]) =
       insert (balance (es @ [e])) ?A"
    by (simp add: insert_commute)
  have fin: "finite ?A" by (rule List.finite_set)
  have ne: "?A \<noteq> {}" by simp
  show ?thesis
    unfolding lowest_def seteq by (rule Min_insert [OF fin ne])
qed

lemma lowest_le_balance: "lowest es \<le> balance es"
proof -
  have "balance (take (length es) es)
      \<in> set (map (\<lambda>n. balance (take n es)) [0..<Suc (length es)])"
    unfolding set_map by (rule imageI) simp
  then show ?thesis
    unfolding lowest_def by (simp del: upt_Suc set_map)
qed

lemma spinner_exact: "spinnerCount (spinnerRun es) = balance es - lowest es"
proof (induction es rule: rev_induct)
  case Nil
  show ?case
    by (simp add: spinnerRun_Nil spinnerInit_def lowest_def balance_def starts_def stops_def)
next
  case (snoc e es)
  from snoc lowest_le_balance [of es] show ?case
    by (cases e) (simp_all add: spinnerRun_snoc balance_snoc lowest_snoc Let_def)
qed

text \<open>
  C1 (as stated): after any sequence of events from the initial state the count is
  \<open>max 0 (starts - stops)\<close>. This fails on the code: a \<^verbatim>\<open>stopSpinner\<close> that arrives at
  count 0 is absorbed by the clamp and not remembered, so the sequence stop, start
  ends with count 1 and a visible spinner, while \<open>max 0 (1 - 1) = 0\<close>.
\<close>

theorem C1_stop_then_start_counterexample:
  "spinnerCount (spinnerRun [StopSpinner, StartSpinner]) = 1 \<and>
   max 0 (starts [StopSpinner, StartSpinner] - stops [StopSpinner, StartSpinner]) = 0 \<and>
   spinnerCount (spinnerRun [StopSpinner, StartSpinner])
     \<noteq> max 0 (starts [StopSpinner, StartSpinner] - stops [StopSpinner, StartSpinner])"
  by (simp add: spinnerRun_def spinnerInit_def starts_def stops_def)

text \<open>
  C1 (amended): from the initial state (count 0, spinner hidden), a \<^verbatim>\<open>startSpinner\<close>
  raises the count by one and shows the spinner; a \<^verbatim>\<open>stopSpinner\<close> at count 0 is a
  no-op, and at a positive count it lowers the count by one and hides the spinner
  iff the count reaches 0. Hence after every sequence of events the count is
  \<open>(starts - stops) - lowest\<close>, where \<open>lowest\<close> is the least value of
  \<open>starts - stops\<close> over all prefixes of the sequence (0 for the empty prefix), and
  the spinner is visible iff the count is greater than 0. The count equals
  \<open>max 0 (starts - stops)\<close> exactly for the sequences with
  \<open>lowest = min 0 (starts - stops)\<close>, among them every sequence in which no stop
  arrived at count 0.
\<close>

theorem C1_spinner_count:
  "spinnerCount (spinnerRun es) = (starts es - stops es) - lowest es \<and>
   (\<not> spinnerHidden (spinnerRun es) \<longleftrightarrow> 0 < spinnerCount (spinnerRun es)) \<and>
   (spinnerCount (spinnerRun es) = max 0 (starts es - stops es)
      \<longleftrightarrow> lowest es = min 0 (starts es - stops es)) \<and>
   spinnerRun (es @ [StartSpinner]) =
     \<lparr>spinnerCount = spinnerCount (spinnerRun es) + 1, spinnerHidden = False\<rparr> \<and>
   spinnerRun (es @ [StopSpinner]) =
     (if spinnerCount (spinnerRun es) = 0 then spinnerRun es
      else \<lparr>spinnerCount = spinnerCount (spinnerRun es) - 1,
            spinnerHidden = (spinnerCount (spinnerRun es) = 1)\<rparr>)"
proof -
  have inv: "0 \<le> spinnerCount (spinnerRun es)"
    and vis: "spinnerHidden (spinnerRun es) \<longleftrightarrow> spinnerCount (spinnerRun es) = 0"
    using spinner_invariant [of es] by blast+
  have ex: "spinnerCount (spinnerRun es) = (starts es - stops es) - lowest es"
    using spinner_exact [of es] by (simp add: balance_def)
  have eq: "spinnerCount (spinnerRun es) = max 0 (starts es - stops es)
      \<longleftrightarrow> lowest es = min 0 (starts es - stops es)"
    unfolding ex by (simp add: max_def min_def) arith
  have start: "spinnerRun (es @ [StartSpinner]) =
     \<lparr>spinnerCount = spinnerCount (spinnerRun es) + 1, spinnerHidden = False\<rparr>"
    using inv vis by (simp add: spinnerRun_snoc Let_def)
  have stop: "spinnerRun (es @ [StopSpinner]) =
     (if spinnerCount (spinnerRun es) = 0 then spinnerRun es
      else \<lparr>spinnerCount = spinnerCount (spinnerRun es) - 1,
            spinnerHidden = (spinnerCount (spinnerRun es) = 1)\<rparr>)"
    using inv vis by (auto simp: spinnerRun_snoc Let_def max_def intro: spinner_state.equality)
  have v2: "\<not> spinnerHidden (spinnerRun es) \<longleftrightarrow> 0 < spinnerCount (spinnerRun es)"
    using inv vis by auto
  show ?thesis
    by (rule conjI [OF ex conjI [OF v2 conjI [OF eq conjI [OF start stop]]]])
qed

theorem C1_spinner_count_witness:
  "spinnerCount (spinnerRun [StartSpinner, StopSpinner, StopSpinner]) = 0 \<and>
   spinnerHidden (spinnerRun [StartSpinner, StopSpinner, StopSpinner]) \<and>
   lowest [StartSpinner, StopSpinner, StopSpinner] = - 1 \<and>
   spinnerCount (spinnerRun [StopSpinner, StartSpinner]) = 1 \<and>
   \<not> spinnerHidden (spinnerRun [StopSpinner, StartSpinner]) \<and>
   lowest [StopSpinner, StartSpinner] = - 1 \<and>
   spinnerRun ([] @ [StopSpinner]) = spinnerRun []"
proof -
  have l1: "lowest [StartSpinner, StopSpinner, StopSpinner] = - 1"
    by (simp add: lowest_def balance_def starts_def stops_def)
  have l2: "lowest [StopSpinner, StartSpinner] = - 1"
    by (simp add: lowest_def balance_def starts_def stops_def)
  have b1: "starts [StartSpinner, StopSpinner, StopSpinner]
      - stops [StartSpinner, StopSpinner, StopSpinner] = - 1"
    and b2: "starts [StopSpinner, StartSpinner] - stops [StopSpinner, StartSpinner] = 0"
    by (simp_all add: starts_def stops_def)
  have z: "spinnerCount (spinnerRun []) = 0"
    by (simp add: spinnerRun_Nil spinnerInit_def)
  from C1_spinner_count [of "[StartSpinner, StopSpinner, StopSpinner]"] l1 b1
  have 1: "spinnerCount (spinnerRun [StartSpinner, StopSpinner, StopSpinner]) = 0 \<and>
      spinnerHidden (spinnerRun [StartSpinner, StopSpinner, StopSpinner])"
    by auto
  from C1_spinner_count [of "[StopSpinner, StartSpinner]"] l2 b2
  have 2: "spinnerCount (spinnerRun [StopSpinner, StartSpinner]) = 1 \<and>
      \<not> spinnerHidden (spinnerRun [StopSpinner, StartSpinner])"
    by auto
  from C1_spinner_count [of "[]"] z
  have 3: "spinnerRun ([] @ [StopSpinner]) = spinnerRun []"
    by simp
  from 1 2 3 l1 l2 show ?thesis by blast
qed

section \<open>Progress overlay: results\<close>

lemma progressRun_snoc: "progressRun p (es @ [e]) = progressHandle (progressRun p es) e"
  by (simp add: progressRun_def)

text \<open>
  C5 (as stated): every \<^verbatim>\<open>progressStart(header)\<close> shows the overlay, sets the header and
  resets the stored text and value to their defaults. The handler makes two calls
  only, \<^verbatim>\<open>hidden = false\<close> and \<^verbatim>\<open>setHeader\<close>; neither \<^verbatim>\<open>setText\<close> nor \<^verbatim>\<open>setProgress\<close> is
  called. Two runs that differ in their last update still differ in text and value
  after the next \<^verbatim>\<open>progressStart\<close>, so no default was restored.
\<close>

theorem C5_progressStart_keeps_text_counterexample:
  "progressStart ''Export'' = [SetHidden False, SetHeader ''Export''] \<and>
   progressText (progressRun
      \<lparr>progressHidden = True, progressHeader = '''', progressText = '''', progressValue = 0\<rparr>
      [ProgressUpdate \<lparr>optText = Some ''loading'', optProgress = Some (1/2)\<rparr>,
       ProgressEnd, ProgressStart ''Export'']) = ''loading'' \<and>
   progressValue (progressRun
      \<lparr>progressHidden = True, progressHeader = '''', progressText = '''', progressValue = 0\<rparr>
      [ProgressUpdate \<lparr>optText = Some ''loading'', optProgress = Some (1/2)\<rparr>,
       ProgressEnd, ProgressStart ''Export'']) = 1/2 \<and>
   progressText (progressRun
      \<lparr>progressHidden = True, progressHeader = '''', progressText = '''', progressValue = 0\<rparr>
      [ProgressUpdate \<lparr>optText = Some ''saving'', optProgress = Some (1/4)\<rparr>,
       ProgressEnd, ProgressStart ''Export'']) = ''saving'' \<and>
   progressValue (progressRun
      \<lparr>progressHidden = True, progressHeader = '''', progressText = '''', progressValue = 0\<rparr>
      [ProgressUpdate \<lparr>optText = Some ''saving'', optProgress = Some (1/4)\<rparr>,
       ProgressEnd, ProgressStart ''Export'']) = 1/4"
  by (simp add: progressRun_def progressHandle_def progressStart_def progressUpdate_def
      progressEnd_def)

text \<open>
  C5 (amended): every \<^verbatim>\<open>progressStart(header)\<close> event makes the progress overlay
  visible and sets the header to the given string; it makes no other call on the
  widget, and the stored text and value are left as they were.
\<close>

theorem C5_progressStart:
  "progressStart hdr = [SetHidden False, SetHeader hdr] \<and>
   \<not> progressHidden (progressHandle p (ProgressStart hdr)) \<and>
   progressHeader (progressHandle p (ProgressStart hdr)) = hdr \<and>
   progressText (progressHandle p (ProgressStart hdr)) = progressText p \<and>
   progressValue (progressHandle p (ProgressStart hdr)) = progressValue p"
  by (simp add: progressHandle_def progressStart_def)

text \<open>
  C6: a \<^verbatim>\<open>progressUpdate\<close> event updates only the fields present in its options
  object. The stored text is the given text if there is one and the prior text
  otherwise, likewise for the value; header and visibility are never touched; and
  for an absent field the setter is not called at all.
\<close>

theorem C6_progressUpdate_frame:
  "progressText (progressHandle p (ProgressUpdate options)) =
     (case optText options of None \<Rightarrow> progressText p | Some t \<Rightarrow> t) \<and>
   progressValue (progressHandle p (ProgressUpdate options)) =
     (case optProgress options of None \<Rightarrow> progressValue p | Some v \<Rightarrow> v) \<and>
   progressHeader (progressHandle p (ProgressUpdate options)) = progressHeader p \<and>
   progressHidden (progressHandle p (ProgressUpdate options)) = progressHidden p \<and>
   (optText options = None \<longrightarrow> (\<forall>t. SetText t \<notin> set (progressUpdate options))) \<and>
   (optProgress options = None \<longrightarrow> (\<forall>v. SetProgress v \<notin> set (progressUpdate options)))"
  by (cases "optText options"; cases "optProgress options")
     (simp_all add: progressHandle_def progressUpdate_def)

theorem C6_progressUpdate_frame_witness:
  "progressHandle
     \<lparr>progressHidden = False, progressHeader = ''Export'', progressText = ''loading'',
      progressValue = 1/4\<rparr>
     (ProgressUpdate \<lparr>optText = None, optProgress = Some (1/2)\<rparr>)
   = \<lparr>progressHidden = False, progressHeader = ''Export'', progressText = ''loading'',
      progressValue = 1/2\<rparr> \<and>
   progressHandle
     \<lparr>progressHidden = False, progressHeader = ''Export'', progressText = ''loading'',
      progressValue = 1/4\<rparr>
     (ProgressUpdate \<lparr>optText = Some ''saving'', optProgress = None\<rparr>)
   = \<lparr>progressHidden = False, progressHeader = ''Export'', progressText = ''saving'',
      progressValue = 1/4\<rparr>"
proof -
  let ?p = "\<lparr>progressHidden = False, progressHeader = ''Export'', progressText = ''loading'',
      progressValue = 1/4 :: real\<rparr>"
  note a = C6_progressUpdate_frame [of ?p "\<lparr>optText = None, optProgress = Some (1/2)\<rparr>"]
  note b = C6_progressUpdate_frame [of ?p "\<lparr>optText = Some ''saving'', optProgress = None\<rparr>"]
  have "progressHandle ?p (ProgressUpdate \<lparr>optText = None, optProgress = Some (1/2)\<rparr>)
      = \<lparr>progressHidden = False, progressHeader = ''Export'', progressText = ''loading'',
         progressValue = 1/2\<rparr>"
    using a by (intro progress.equality) simp_all
  moreover
  have "progressHandle ?p (ProgressUpdate \<lparr>optText = Some ''saving'', optProgress = None\<rparr>)
      = \<lparr>progressHidden = False, progressHeader = ''Export'', progressText = ''saving'',
         progressValue = 1/4\<rparr>"
    using b by (intro progress.equality) simp_all
  ultimately show ?thesis by blast
qed

lemma progressHandleBounded_value:
  "progressValue (progressHandleBounded policy p ev) =
     (case carriedValue ev of
        None \<Rightarrow> progressValue p
      | Some v \<Rightarrow> (case boundedValue policy v of None \<Rightarrow> progressValue p | Some r \<Rightarrow> r))"
proof (cases ev)
  case (ProgressUpdate options)
  then show ?thesis
    by (cases "optText options"; cases "optProgress options")
       (simp_all add: progressHandleBounded_def progressUpdate_def split: option.splits)
qed (simp_all add: progressHandleBounded_def progressStart_def progressEnd_def)

lemma boundedValue_unit: "boundedValue policy v = Some r \<Longrightarrow> inUnitInterval r"
  by (cases policy) (auto simp: inUnitInterval_def split: if_splits)

lemma boundedValue_id: "inUnitInterval v \<Longrightarrow> boundedValue policy v = Some v"
  by (cases policy) (auto simp: inUnitInterval_def)

lemma progressHandleBounded_unit:
  "inUnitInterval (progressValue p) \<Longrightarrow>
     inUnitInterval (progressValue (progressHandleBounded policy p ev))"
  by (auto simp: progressHandleBounded_value dest: boundedValue_unit split: option.splits)

lemma progressHandleBounded_agrees:
  "carriesUnitValue ev \<Longrightarrow> progressHandleBounded policy p ev = progressHandle p ev"
proof (cases ev)
  case (ProgressUpdate options)
  assume "carriesUnitValue ev"
  with ProgressUpdate show ?thesis
    by (cases "optText options"; cases "optProgress options")
       (simp_all add: progressHandleBounded_def progressHandle_def progressUpdate_def
          carriesUnitValue_def boundedValue_id)
qed (simp_all add: progressHandleBounded_def progressHandle_def progressStart_def
       progressEnd_def)

lemma progressRunBounded_snoc:
  "progressRunBounded policy p (es @ [e]) =
     progressHandleBounded policy (progressRunBounded policy p es) e"
  by (simp add: progressRunBounded_def)

lemma progressRunBounded_unit:
  "inUnitInterval (progressValue p) \<Longrightarrow>
     inUnitInterval (progressValue (progressRunBounded policy p es))"
proof (induction es rule: rev_induct)
  case Nil
  then show ?case by (simp add: progressRunBounded_def)
next
  case (snoc e es)
  then show ?case
    by (simp add: progressRunBounded_snoc progressHandleBounded_unit)
qed

lemma progressRunBounded_agrees:
  "\<forall>e \<in> set es. carriesUnitValue e \<Longrightarrow> progressRunBounded policy p es = progressRun p es"
proof (induction es rule: rev_induct)
  case Nil
  show ?case by (simp add: progressRunBounded_def progressRun_def)
next
  case (snoc e es)
  then show ?case
    by (simp add: progressRunBounded_snoc progressRun_snoc progressHandleBounded_agrees)
qed

text \<open>
  C7: the handler of \<^verbatim>\<open>progressUpdate\<close> hands the value it carries to \<^verbatim>\<open>setProgress\<close> as
  it is, and no handler writes the value in any other way. With the setter the
  spec describes, clamping or asserting, the value stored by an update carrying
  \<open>v\<close> is \<open>v\<close> clamped into \<open>[0,1]\<close>, or \<open>v\<close> itself if it lies there and the prior
  value if the assertion fails; so a stored value that starts within \<open>[0,1]\<close> is
  within \<open>[0,1]\<close> after every sequence of events. On sequences whose values
  all lie within \<open>[0,1]\<close> the bounded setter and the plain write agree.
\<close>

theorem C7_value_bounded:
  "(inUnitInterval (progressValue p) \<longrightarrow>
      inUnitInterval (progressValue (progressRunBounded policy p es))) \<and>
   progressUpdate options =
     (case optText options of None \<Rightarrow> [] | Some t \<Rightarrow> [SetText t]) @
     (case optProgress options of None \<Rightarrow> [] | Some v \<Rightarrow> [SetProgress v]) \<and>
   progressValue (progressHandleBounded policy p (ProgressUpdate options)) =
     (case optProgress options of
        None \<Rightarrow> progressValue p
      | Some v \<Rightarrow>
          (case policy of
             Clamped \<Rightarrow> max 0 (min 1 v)
           | Asserted \<Rightarrow> if 0 \<le> v \<and> v \<le> 1 then v else progressValue p)) \<and>
   progressValue (progressHandleBounded policy p (ProgressStart hdr)) = progressValue p \<and>
   progressValue (progressHandleBounded policy p ProgressEnd) = progressValue p \<and>
   ((\<forall>e \<in> set es. carriesUnitValue e) \<longrightarrow> progressRunBounded policy p es = progressRun p es)"
proof -
  have v: "progressValue (progressHandleBounded policy p (ProgressUpdate options)) =
     (case optProgress options of
        None \<Rightarrow> progressValue p
      | Some v \<Rightarrow>
          (case policy of
             Clamped \<Rightarrow> max 0 (min 1 v)
           | Asserted \<Rightarrow> if 0 \<le> v \<and> v \<le> 1 then v else progressValue p))"
    by (cases policy) (simp_all add: progressHandleBounded_value split: option.splits)
  have s: "progressValue (progressHandleBounded policy p (ProgressStart hdr)) = progressValue p"
    "progressValue (progressHandleBounded policy p ProgressEnd) = progressValue p"
    by (simp_all add: progressHandleBounded_value)
  from v s progressRunBounded_unit [of p policy es] progressRunBounded_agrees [of es policy p]
  show ?thesis by (simp add: progressUpdate_def)
qed

theorem C7_value_bounded_witness:
  "progressValue (progressRunBounded Clamped
      \<lparr>progressHidden = True, progressHeader = '''', progressText = '''', progressValue = 0\<rparr>
      [ProgressStart ''Export'',
       ProgressUpdate \<lparr>optText = None, optProgress = Some (3/2)\<rparr>]) = 1 \<and>
   progressValue (progressRunBounded Asserted
      \<lparr>progressHidden = True, progressHeader = '''', progressText = '''', progressValue = 0\<rparr>
      [ProgressStart ''Export'',
       ProgressUpdate \<lparr>optText = None, optProgress = Some (3/2)\<rparr>]) = 0 \<and>
   inUnitInterval (progressValue (progressRunBounded Clamped
      \<lparr>progressHidden = True, progressHeader = '''', progressText = '''', progressValue = 0\<rparr>
      [ProgressStart ''Export'',
       ProgressUpdate \<lparr>optText = None, optProgress = Some (3/2)\<rparr>])) \<and>
   progressRunBounded Asserted
      \<lparr>progressHidden = True, progressHeader = '''', progressText = '''', progressValue = 0\<rparr>
      [ProgressUpdate \<lparr>optText = Some ''frame 1'', optProgress = Some (1/2)\<rparr>, ProgressEnd]
   = progressRun
      \<lparr>progressHidden = True, progressHeader = '''', progressText = '''', progressValue = 0\<rparr>
      [ProgressUpdate \<lparr>optText = Some ''frame 1'', optProgress = Some (1/2)\<rparr>, ProgressEnd]"
proof -
  let ?p = "\<lparr>progressHidden = True, progressHeader = '''', progressText = '''',
      progressValue = 0 :: real\<rparr>"
  let ?u = "\<lparr>optText = None, optProgress = Some (3/2 :: real)\<rparr>"
  let ?es = "[ProgressStart ''Export'', ProgressUpdate ?u]"
  let ?ok = "[ProgressUpdate \<lparr>optText = Some ''frame 1'', optProgress = Some (1/2 :: real)\<rparr>,
      ProgressEnd]"
  have h: "inUnitInterval (progressValue ?p)" by (simp add: inUnitInterval_def)
  have k: "\<forall>e \<in> set ?ok. carriesUnitValue e"
    by (simp add: carriesUnitValue_def inUnitInterval_def)
  have start: "progressRunBounded policy ?p [ProgressStart ''Export''] =
      ?p\<lparr>progressHidden := False, progressHeader := ''Export''\<rparr>" for policy
    by (simp add: progressRunBounded_def progressHandleBounded_def progressStart_def)
  have run: "progressRunBounded policy ?p ?es =
      progressHandleBounded policy (progressRunBounded policy ?p [ProgressStart ''Export''])
        (ProgressUpdate ?u)" for policy
    by (simp add: progressRunBounded_def)
  from C7_value_bounded [of "progressRunBounded Clamped ?p [ProgressStart ''Export'']" Clamped
      "[]" ?u]
  have 1: "progressValue (progressRunBounded Clamped ?p ?es) = 1"
    by (simp add: run)
  from C7_value_bounded [of "progressRunBounded Asserted ?p [ProgressStart ''Export'']" Asserted
      "[]" ?u]
  have 2: "progressValue (progressRunBounded Asserted ?p ?es) = 0"
    by (simp add: run start)
  from C7_value_bounded [of ?p Clamped ?es] h
  have 3: "inUnitInterval (progressValue (progressRunBounded Clamped ?p ?es))"
    by blast
  from C7_value_bounded [of ?p Asserted ?ok] k
  have 4: "progressRunBounded Asserted ?p ?ok = progressRun ?p ?ok"
    by blast
  from 1 2 3 4 show ?thesis by blast
qed

section \<open>Screen-space annotation: results\<close>

lemma deliver_viewer: "deliver (EditorUI (Some True)) ev env st = updateNote env st"
  by (cases ev) (simp_all add: deliver_def handlersFor_def EditorUI_def)

lemma inside_Fin:
  "inside v \<longleftrightarrow>
     (\<exists>x y z. v = Vec3 (Fin x) (Fin y) (Fin z) \<and>
        0 \<le> z \<and> z \<le> 1 \<and> 0 \<le> x \<and> x \<le> 1 \<and> 0 \<le> y \<and> y \<le> 1)"
proof (cases v)
  case (Vec3 a b c)
  then show ?thesis
    by (cases a; cases b; cases c) (auto simp: inside_def jge_def)
qed

lemma updateNote_absent:
  assumes "windowScene env = None \<or> windowScene env = Some (Scene None) \<or>
      windowScene env = Some (Scene (Some (Camera None)))"
  shows "updateNote env st = st\<lparr>noteStyle := (noteStyle st)\<lparr>styleDisplay := DisplayNone\<rparr>\<rparr>"
  using assms by (auto simp: updateNote_def cameraCapability_def)

lemma updateNote_present:
  assumes "windowScene env = Some (Scene (Some (Camera (Some w2s))))"
  shows "noteScreen (updateNote env st) = w2s noteWorld (noteScreen st)"
    and "styleDisplay (noteStyle (updateNote env st)) = DisplayFlex \<longleftrightarrow>
           inside (w2s noteWorld (noteScreen st))"
    and "\<not> inside (w2s noteWorld (noteScreen st)) \<Longrightarrow>
           noteStyle (updateNote env st) = (noteStyle st)\<lparr>styleDisplay := DisplayNone\<rparr>"
  using assms by (simp_all add: updateNote_def cameraCapability_def Let_def)

lemma updateNote_position:
  assumes "windowScene env = Some (Scene (Some (Camera (Some w2s))))"
    and "w2s noteWorld (noteScreen st) = Vec3 (Fin x) (Fin y) (Fin z)"
    and "inside (Vec3 (Fin x) (Fin y) (Fin z))"
    and "roundNearest env (x * rectWidth (canvasRect env)) = Fin mx"
    and "roundNearest env (y * rectHeight (canvasRect env)) = Fin my"
  shows "styleLeft (noteStyle (updateNote env st)) =
           Some (roundNearest env (rectLeft (canvasRect env) + mx))"
    and "styleTop (noteStyle (updateNote env st)) =
           Some (roundNearest env (rectTop (canvasRect env) + my))"
  using assms by (simp_all add: updateNote_def cameraCapability_def Let_def)

text \<open>
  C2: on every \<^verbatim>\<open>prerender\<close> tick and on every window \<^verbatim>\<open>resize\<close> in viewer mode, the
  annotation is hidden, and nothing else changes, when the scene, its camera or
  the camera's \<^verbatim>\<open>worldToScreen\<close> is absent. Otherwise the point is projected, and the
  annotation is shown (\<^verbatim>\<open>display = 'flex'\<close>) iff depth and both axes are finite numbers
  within \<open>[0,1]\<close>, and hidden (\<^verbatim>\<open>display = 'none'\<close>, position untouched) if not; a
  depth of 1.5 hides it whatever x and y are. When shown, \<^verbatim>\<open>left\<close> and \<^verbatim>\<open>top\<close> are
  \<^verbatim>\<open>rect.left + x * rect.width\<close> and \<^verbatim>\<open>rect.top + y * rect.height\<close> of the canvas's
  bounding rectangle read in that call, each operation rounded as the host rounds
  (the products, of a factor within \<open>[0,1]\<close>, being finite).
\<close>

theorem C2_annotation_visibility:
  "(windowScene env = None \<or> windowScene env = Some (Scene None) \<or>
    windowScene env = Some (Scene (Some (Camera None))) \<longrightarrow>
      deliver (EditorUI (Some True)) ev env st =
        st\<lparr>noteStyle := (noteStyle st)\<lparr>styleDisplay := DisplayNone\<rparr>\<rparr>) \<and>
   (windowScene env = Some (Scene (Some (Camera (Some w2s)))) \<longrightarrow>
      noteScreen (deliver (EditorUI (Some True)) ev env st) = w2s noteWorld (noteScreen st) \<and>
      (styleDisplay (noteStyle (deliver (EditorUI (Some True)) ev env st)) = DisplayFlex \<longleftrightarrow>
         (\<exists>x y z. w2s noteWorld (noteScreen st) = Vec3 (Fin x) (Fin y) (Fin z) \<and>
            0 \<le> z \<and> z \<le> 1 \<and> 0 \<le> x \<and> x \<le> 1 \<and> 0 \<le> y \<and> y \<le> 1)) \<and>
      (styleDisplay (noteStyle (deliver (EditorUI (Some True)) ev env st)) \<noteq> DisplayFlex \<longrightarrow>
         noteStyle (deliver (EditorUI (Some True)) ev env st) =
           (noteStyle st)\<lparr>styleDisplay := DisplayNone\<rparr>)) \<and>
   (windowScene env = Some (Scene (Some (Camera (Some w2s)))) \<and>
    vec_z (w2s noteWorld (noteScreen st)) = Fin 1.5 \<longrightarrow>
      styleDisplay (noteStyle (deliver (EditorUI (Some True)) ev env st)) = DisplayNone) \<and>
   (windowScene env = Some (Scene (Some (Camera (Some w2s)))) \<and>
    w2s noteWorld (noteScreen st) = Vec3 (Fin x) (Fin y) (Fin z) \<and>
    0 \<le> z \<and> z \<le> 1 \<and> 0 \<le> x \<and> x \<le> 1 \<and> 0 \<le> y \<and> y \<le> 1 \<and>
    roundNearest env (x * rectWidth (canvasRect env)) = Fin mx \<and>
    roundNearest env (y * rectHeight (canvasRect env)) = Fin my \<longrightarrow>
      styleLeft (noteStyle (deliver (EditorUI (Some True)) ev env st)) =
        Some (roundNearest env (rectLeft (canvasRect env) + mx)) \<and>
      styleTop (noteStyle (deliver (EditorUI (Some True)) ev env st)) =
        Some (roundNearest env (rectTop (canvasRect env) + my)))"
proof -
  have absent: "updateNote env st = st\<lparr>noteStyle := (noteStyle st)\<lparr>styleDisplay := DisplayNone\<rparr>\<rparr>"
    if "windowScene env = None \<or> windowScene env = Some (Scene None) \<or>
      windowScene env = Some (Scene (Some (Camera None)))"
    using that by (rule updateNote_absent)
  have present: "noteScreen (updateNote env st) = w2s noteWorld (noteScreen st) \<and>
      (styleDisplay (noteStyle (updateNote env st)) = DisplayFlex \<longleftrightarrow>
         (\<exists>x y z. w2s noteWorld (noteScreen st) = Vec3 (Fin x) (Fin y) (Fin z) \<and>
            0 \<le> z \<and> z \<le> 1 \<and> 0 \<le> x \<and> x \<le> 1 \<and> 0 \<le> y \<and> y \<le> 1)) \<and>
      (styleDisplay (noteStyle (updateNote env st)) \<noteq> DisplayFlex \<longrightarrow>
         noteStyle (updateNote env st) = (noteStyle st)\<lparr>styleDisplay := DisplayNone\<rparr>)"
    if w: "windowScene env = Some (Scene (Some (Camera (Some w2s))))"
    using updateNote_present [OF w, of st] inside_Fin [of "w2s noteWorld (noteScreen st)"]
    by blast
  have deep: "styleDisplay (noteStyle (updateNote env st)) = DisplayNone"
    if w: "windowScene env = Some (Scene (Some (Camera (Some w2s))))"
      and z: "vec_z (w2s noteWorld (noteScreen st)) = Fin 1.5"
  proof -
    from z have "\<not> inside (w2s noteWorld (noteScreen st))"
      by (auto simp: inside_Fin)
    from updateNote_present(3) [OF w this] show ?thesis by simp
  qed
  have pos: "styleLeft (noteStyle (updateNote env st)) =
        Some (roundNearest env (rectLeft (canvasRect env) + mx)) \<and>
      styleTop (noteStyle (updateNote env st)) =
        Some (roundNearest env (rectTop (canvasRect env) + my))"
    if "windowScene env = Some (Scene (Some (Camera (Some w2s))))"
      "w2s noteWorld (noteScreen st) = Vec3 (Fin x) (Fin y) (Fin z)"
      "0 \<le> z \<and> z \<le> 1 \<and> 0 \<le> x \<and> x \<le> 1 \<and> 0 \<le> y \<and> y \<le> 1"
      "roundNearest env (x * rectWidth (canvasRect env)) = Fin mx"
      "roundNearest env (y * rectHeight (canvasRect env)) = Fin my"
  proof -
    from that(3) have "inside (Vec3 (Fin x) (Fin y) (Fin z))"
      by (simp add: inside_Fin)
    from updateNote_position [OF that(1,2) this that(4,5)] show ?thesis by simp
  qed
  from absent present deep pos show ?thesis
    unfolding deliver_viewer by blast
qed

theorem C2_annotation_visibility_witness:
  "styleDisplay (noteStyle (deliver (EditorUI (Some True)) Prerender
      \<lparr>windowScene = Some (Scene (Some (Camera (Some
          (\<lambda>world screen. Vec3 (Fin (1/2)) (Fin (1/4)) (Fin (1/2))))))),
       canvasRect = \<lparr>rectLeft = 10, rectTop = 20, rectWidth = 800, rectHeight = 600\<rparr>,
       roundNearest = Fin\<rparr>
      \<lparr>noteStyle = \<lparr>styleDisplay = DisplayUnset, styleLeft = None, styleTop = None\<rparr>,
       noteScreen = Vec3 (Fin 0) (Fin 0) (Fin 0)\<rparr>)) = DisplayFlex \<and>
   styleLeft (noteStyle (deliver (EditorUI (Some True)) Prerender
      \<lparr>windowScene = Some (Scene (Some (Camera (Some
          (\<lambda>world screen. Vec3 (Fin (1/2)) (Fin (1/4)) (Fin (1/2))))))),
       canvasRect = \<lparr>rectLeft = 10, rectTop = 20, rectWidth = 800, rectHeight = 600\<rparr>,
       roundNearest = Fin\<rparr>
      \<lparr>noteStyle = \<lparr>styleDisplay = DisplayUnset, styleLeft = None, styleTop = None\<rparr>,
       noteScreen = Vec3 (Fin 0) (Fin 0) (Fin 0)\<rparr>)) = Some (Fin 410) \<and>
   styleTop (noteStyle (deliver (EditorUI (Some True)) Prerender
      \<lparr>windowScene = Some (Scene (Some (Camera (Some
          (\<lambda>world screen. Vec3 (Fin (1/2)) (Fin (1/4)) (Fin (1/2))))))),
       canvasRect = \<lparr>rectLeft = 10, rectTop = 20, rectWidth = 800, rectHeight = 600\<rparr>,
       roundNearest = Fin\<rparr>
      \<lparr>noteStyle = \<lparr>styleDisplay = DisplayUnset, styleLeft = None, styleTop = None\<rparr>,
       noteScreen = Vec3 (Fin 0) (Fin 0) (Fin 0)\<rparr>)) = Some (Fin 170) \<and>
   styleDisplay (noteStyle (deliver (EditorUI (Some True)) Resize
      \<lparr>windowScene = Some (Scene (Some (Camera (Some
          (\<lambda>world screen. Vec3 (Fin (1/2)) (Fin (1/4)) (Fin 1.5)))))),
       canvasRect = \<lparr>rectLeft = 10, rectTop = 20, rectWidth = 800, rectHeight = 600\<rparr>,
       roundNearest = Fin\<rparr>
      \<lparr>noteStyle = \<lparr>styleDisplay = DisplayFlex, styleLeft = Some (Fin 410),
                     styleTop = Some (Fin 170)\<rparr>,
       noteScreen = Vec3 (Fin 0) (Fin 0) (Fin 0)\<rparr>)) = DisplayNone \<and>
   deliver (EditorUI (Some True)) Prerender
      \<lparr>windowScene = None,
       canvasRect = \<lparr>rectLeft = 10, rectTop = 20, rectWidth = 800, rectHeight = 600\<rparr>,
       roundNearest = Fin\<rparr>
      \<lparr>noteStyle = \<lparr>styleDisplay = DisplayFlex, styleLeft = Some (Fin 410),
                     styleTop = Some (Fin 170)\<rparr>,
       noteScreen = Vec3 (Fin 0) (Fin 0) (Fin 0)\<rparr>
   = \<lparr>noteStyle = \<lparr>styleDisplay = DisplayNone, styleLeft = Some (Fin 410),
                     styleTop = Some (Fin 170)\<rparr>,
       noteScreen = Vec3 (Fin 0) (Fin 0) (Fin 0)\<rparr> \<and>
   styleDisplay (noteStyle (deliver (EditorUI (Some True)) Resize
      \<lparr>windowScene = Some (Scene None),
       canvasRect = \<lparr>rectLeft = 10, rectTop = 20, rectWidth = 800, rectHeight = 600\<rparr>,
       roundNearest = Fin\<rparr>
      \<lparr>noteStyle = \<lparr>styleDisplay = DisplayFlex, styleLeft = Some (Fin 410),
                     styleTop = Some (Fin 170)\<rparr>,
       noteScreen = Vec3 (Fin 0) (Fin 0) (Fin 0)\<rparr>)) = DisplayNone \<and>
   styleDisplay (noteStyle (deliver (EditorUI (Some True)) Resize
      \<lparr>windowScene = Some (Scene (Some (Camera None))),
       canvasRect = \<lparr>rectLeft = 10, rectTop = 20, rectWidth = 800, rectHeight = 600\<rparr>,
       roundNearest = Fin\<rparr>
      \<lparr>noteStyle = \<lparr>styleDisplay = DisplayFlex, styleLeft = Some (Fin 410),
                     styleTop = Some (Fin 170)\<rparr>,
       noteScreen = Vec3 (Fin 0) (Fin 0) (Fin 0)\<rparr>)) = DisplayNone"
proof -
  let ?r = "\<lparr>rectLeft = 10, rectTop = 20, rectWidth = 800, rectHeight = 600\<rparr>"
  let ?in = "\<lambda>(world::vec3) (screen::vec3). Vec3 (Fin (1/2)) (Fin (1/4)) (Fin (1/2))"
  let ?deep = "\<lambda>(world::vec3) (screen::vec3). Vec3 (Fin (1/2)) (Fin (1/4)) (Fin 1.5)"
  let ?e1 = "\<lparr>windowScene = Some (Scene (Some (Camera (Some ?in)))), canvasRect = ?r,
      roundNearest = Fin\<rparr>"
  let ?e2 = "\<lparr>windowScene = Some (Scene (Some (Camera (Some ?deep)))), canvasRect = ?r,
      roundNearest = Fin\<rparr>"
  let ?e3 = "\<lparr>windowScene = None, canvasRect = ?r, roundNearest = Fin\<rparr>"
  let ?e4 = "\<lparr>windowScene = Some (Scene None), canvasRect = ?r, roundNearest = Fin\<rparr>"
  let ?e5 = "\<lparr>windowScene = Some (Scene (Some (Camera None))), canvasRect = ?r,
      roundNearest = Fin\<rparr>"
  let ?s0 = "\<lparr>noteStyle = \<lparr>styleDisplay = DisplayUnset, styleLeft = None, styleTop = None\<rparr>,
       noteScreen = Vec3 (Fin 0) (Fin 0) (Fin 0)\<rparr>"
  let ?s1 = "\<lparr>noteStyle = \<lparr>styleDisplay = DisplayFlex, styleLeft = Some (Fin 410),
                     styleTop = Some (Fin 170)\<rparr>,
       noteScreen = Vec3 (Fin 0) (Fin 0) (Fin 0)\<rparr>"
  note t1 = C2_annotation_visibility [of ?e1 Prerender ?s0 ?in "1/2" "1/4" "1/2" 400 150]
  have h1: "windowScene ?e1 = Some (Scene (Some (Camera (Some ?in))))" by simp
  have h1': "\<exists>x y z. ?in noteWorld (noteScreen ?s0) = Vec3 (Fin x) (Fin y) (Fin z) \<and>
            0 \<le> z \<and> z \<le> 1 \<and> 0 \<le> x \<and> x \<le> 1 \<and> 0 \<le> y \<and> y \<le> 1"
    by (rule exI [of _ "1/2"], rule exI [of _ "1/4"], rule exI [of _ "1/2"]) simp
  from t1 h1 h1' have 1: "styleDisplay (noteStyle (deliver (EditorUI (Some True)) Prerender
      ?e1 ?s0)) = DisplayFlex"
    by blast
  have h1'': "windowScene ?e1 = Some (Scene (Some (Camera (Some ?in)))) \<and>
    ?in noteWorld (noteScreen ?s0) = Vec3 (Fin (1/2)) (Fin (1/4)) (Fin (1/2)) \<and>
    (0::real) \<le> 1/2 \<and> (1/2::real) \<le> 1 \<and> (0::real) \<le> 1/2 \<and> (1/2::real) \<le> 1 \<and>
    (0::real) \<le> 1/4 \<and> (1/4::real) \<le> 1 \<and>
    roundNearest ?e1 (1/2 * rectWidth (canvasRect ?e1)) = Fin 400 \<and>
    roundNearest ?e1 (1/4 * rectHeight (canvasRect ?e1)) = Fin 150"
    by simp
  from t1 h1'' have "styleLeft (noteStyle (deliver (EditorUI (Some True)) Prerender ?e1 ?s0)) =
        Some (roundNearest ?e1 (rectLeft (canvasRect ?e1) + 400)) \<and>
      styleTop (noteStyle (deliver (EditorUI (Some True)) Prerender ?e1 ?s0)) =
        Some (roundNearest ?e1 (rectTop (canvasRect ?e1) + 150))"
    by blast
  then have 2: "styleLeft (noteStyle (deliver (EditorUI (Some True)) Prerender ?e1 ?s0)) =
        Some (Fin 410) \<and>
      styleTop (noteStyle (deliver (EditorUI (Some True)) Prerender ?e1 ?s0)) = Some (Fin 170)"
    by simp
  note t2 = C2_annotation_visibility [of ?e2 Resize ?s1 ?deep]
  have h2: "windowScene ?e2 = Some (Scene (Some (Camera (Some ?deep)))) \<and>
      vec_z (?deep noteWorld (noteScreen ?s1)) = Fin 1.5"
    by simp
  from t2 h2 have 3: "styleDisplay (noteStyle (deliver (EditorUI (Some True)) Resize ?e2 ?s1)) =
      DisplayNone"
    by blast
  note t3 = C2_annotation_visibility [of ?e3 Prerender ?s1]
  have h3: "windowScene ?e3 = None" by simp
  from t3 h3 have "deliver (EditorUI (Some True)) Prerender ?e3 ?s1 =
      ?s1\<lparr>noteStyle := (noteStyle ?s1)\<lparr>styleDisplay := DisplayNone\<rparr>\<rparr>"
    by blast
  then have 4: "deliver (EditorUI (Some True)) Prerender ?e3 ?s1 =
      \<lparr>noteStyle = \<lparr>styleDisplay = DisplayNone, styleLeft = Some (Fin 410),
                     styleTop = Some (Fin 170)\<rparr>,
       noteScreen = Vec3 (Fin 0) (Fin 0) (Fin 0)\<rparr>"
    by simp
  note t4 = C2_annotation_visibility [of ?e4 Resize ?s1]
  have h4: "windowScene ?e4 = Some (Scene None)" by simp
  from t4 h4 have "deliver (EditorUI (Some True)) Resize ?e4 ?s1 =
      ?s1\<lparr>noteStyle := (noteStyle ?s1)\<lparr>styleDisplay := DisplayNone\<rparr>\<rparr>"
    by blast
  then have 5: "styleDisplay (noteStyle (deliver (EditorUI (Some True)) Resize ?e4 ?s1)) =
      DisplayNone"
    by simp
  note t5 = C2_annotation_visibility [of ?e5 Resize ?s1]
  have h5: "windowScene ?e5 = Some (Scene (Some (Camera None)))" by simp
  from t5 h5 have "deliver (EditorUI (Some True)) Resize ?e5 ?s1 =
      ?s1\<lparr>noteStyle := (noteStyle ?s1)\<lparr>styleDisplay := DisplayNone\<rparr>\<rparr>"
    by blast
  then have 6: "styleDisplay (noteStyle (deliver (EditorUI (Some True)) Resize ?e5 ?s1)) =
      DisplayNone"
    by simp
  from 1 2 3 4 5 6 show ?thesis by blast
qed

section \<open>The constructor: results\<close>

lemma EditorUI_not_viewer:
  "v \<noteq> Some True \<Longrightarrow>
     body (EditorUI v) = [appContainer] \<and>
     prerenderHandlers (EditorUI v) = [ViewCubeUpdate] \<and>
     resizeListeners (EditorUI v) = []"
  by (cases v) (auto simp: EditorUI_def)

lemma EditorUI_viewer:
  "body (EditorUI (Some True)) = [presets, noteElem, appContainer] \<and>
   prerenderHandlers (EditorUI (Some True)) = [UpdateNote, ViewCubeUpdate] \<and>
   resizeListeners (EditorUI (Some True)) = [UpdateNote]"
  by (simp add: EditorUI_def)

lemma appContainer_elems:
  "e \<in> set (descendants appContainer) \<Longrightarrow>
     elemId e \<in> {''app-container'', ''editor-container'', ''top-container'',
        ''tooltips-container''} \<and> className e = ''''"
  by (auto simp: appContainer_def)

text \<open>
  C10: the camera preset element, the annotation element and the annotation's
  \<^verbatim>\<open>prerender\<close> and \<^verbatim>\<open>resize\<close> subscriptions exist iff the editor is constructed with
  \<^verbatim>\<open>viewerOnly = true\<close>. When \<^verbatim>\<open>viewerOnly\<close> is false or absent, no element appended to
  the body, nor any descendant of one, is the preset container, a preset button or
  the annotation; \<^verbatim>\<open>updateNote\<close> is subscribed to neither event, and delivering either
  event leaves the annotation state untouched.
\<close>

theorem C10_viewer_only_controls:
  "(presets \<in> set (body (EditorUI v)) \<longleftrightarrow> v = Some True) \<and>
   (noteElem \<in> set (body (EditorUI v)) \<longleftrightarrow> v = Some True) \<and>
   (UpdateNote \<in> set (prerenderHandlers (EditorUI v)) \<longleftrightarrow> v = Some True) \<and>
   (UpdateNote \<in> set (resizeListeners (EditorUI v)) \<longleftrightarrow> v = Some True) \<and>
   (v \<noteq> Some True \<longrightarrow>
      (\<forall>e \<in> set (allElems (EditorUI v)).
         elemId e \<noteq> ''viewer-camera-presets'' \<and>
         className e \<noteq> ''viewer-camera-button'' \<and>
         elemId e \<noteq> ''viewer-annotation'') \<and>
      UpdateNote \<notin> set (handlersFor (EditorUI v) ev) \<and>
      deliver (EditorUI v) ev env st = st)"
proof (cases "v = Some True")
  case True
  then show ?thesis
    using EditorUI_viewer by simp
next
  case False
  note nv = EditorUI_not_viewer [OF False]
  have a: "presets \<noteq> appContainer" "noteElem \<noteq> appContainer"
    by (simp_all add: presets_def noteElem_def appContainer_def)
  have b: "\<forall>e \<in> set (allElems (EditorUI v)).
         elemId e \<noteq> ''viewer-camera-presets'' \<and>
         className e \<noteq> ''viewer-camera-button'' \<and>
         elemId e \<noteq> ''viewer-annotation''"
  proof
    fix e assume "e \<in> set (allElems (EditorUI v))"
    with nv have "e \<in> set (descendants appContainer)" by (simp add: allElems_def)
    from appContainer_elems [OF this] show
      "elemId e \<noteq> ''viewer-camera-presets'' \<and>
       className e \<noteq> ''viewer-camera-button'' \<and>
       elemId e \<noteq> ''viewer-annotation''"
      by auto
  qed
  have c: "UpdateNote \<notin> set (handlersFor (EditorUI v) ev)"
    using nv by (cases ev) (simp_all add: handlersFor_def)
  have d: "deliver (EditorUI v) ev env st = st"
    using nv by (cases ev) (simp_all add: handlersFor_def deliver_def)
  from False nv a b c d show ?thesis by simp
qed

theorem C10_viewer_only_controls_witness:
  "filter (\<lambda>e. elemId e = ''viewer-camera-presets'' \<or> className e = ''viewer-camera-button'' \<or>
       elemId e = ''viewer-annotation'') (allElems (EditorUI None)) = [] \<and>
   UpdateNote \<notin> set (handlersFor (EditorUI None) Prerender) \<and>
   UpdateNote \<notin> set (handlersFor (EditorUI (Some False)) Resize) \<and>
   presets \<in> set (body (EditorUI (Some True))) \<and>
   noteElem \<in> set (body (EditorUI (Some True))) \<and>
   presets \<notin> set (body (EditorUI (Some False)))"
proof -
  have n: "None \<noteq> Some True" and f: "Some False \<noteq> Some True" by simp_all
  from C10_viewer_only_controls [of None Prerender] n
  have 1: "\<forall>e \<in> set (allElems (EditorUI None)).
         elemId e \<noteq> ''viewer-camera-presets'' \<and>
         className e \<noteq> ''viewer-camera-button'' \<and>
         elemId e \<noteq> ''viewer-annotation''"
    and 2: "UpdateNote \<notin> set (handlersFor (EditorUI None) Prerender)"
    by blast+
  from C10_viewer_only_controls [of "Some False" Resize] f
  have 3: "UpdateNote \<notin> set (handlersFor (EditorUI (Some False)) Resize)"
    and 4: "presets \<notin> set (body (EditorUI (Some False)))"
    by blast+
  from C10_viewer_only_controls [of "Some True"]
  have 5: "presets \<in> set (body (EditorUI (Some True)))"
    and 6: "noteElem \<in> set (body (EditorUI (Some True)))"
    by blast+
  from 1 have 7: "filter (\<lambda>e. elemId e = ''viewer-camera-presets'' \<or>
       className e = ''viewer-camera-button'' \<or>
       elemId e = ''viewer-annotation'') (allElems (EditorUI None)) = []"
    unfolding filter_empty_conv by blast
  from 2 3 4 5 6 7 show ?thesis by blast
qed

section \<open>Publish flow: results\<close>

text \<open>
  C4: in the publish flow, when \<^verbatim>\<open>publish.userStatus\<close> resolves falsy, exactly one
  error notification is shown, with the localized please-log-in message, the publish
  settings dialog is not shown, \<^verbatim>\<open>scene.publish\<close> is not invoked, and the flow resolves
  with \<^verbatim>\<open>false\<close>. When the status is truthy and the dialog resolves with settings,
  \<^verbatim>\<open>scene.publish\<close> is invoked once, with exactly these settings, after the dialog was
  shown with the status, and no notification is shown.
\<close>

theorem C4_publish_flow:
  "(userStatus env = None \<longrightarrow>
      publishPopupsOf (fst (showPublishSettingsDialog env)) =
        [\<lparr>popupType = ''error'', popupHeader = localize env ''popup.error'',
          popupMessage = localize env ''popup.publish.please-log-in''\<rparr>] \<and>
      dialogsOf (fst (showPublishSettingsDialog env)) = [] \<and>
      publishedOf (fst (showPublishSettingsDialog env)) = [] \<and>
      snd (showPublishSettingsDialog env) = ReturnedFalse) \<and>
   (userStatus env = Some status \<and> publishSettingsDialog env status = Some settings \<longrightarrow>
      publishedOf (fst (showPublishSettingsDialog env)) = [settings] \<and>
      dialogsOf (fst (showPublishSettingsDialog env)) = [status] \<and>
      publishPopupsOf (fst (showPublishSettingsDialog env)) = [])"
  by (simp add: showPublishSettingsDialog_def)

theorem C4_publish_flow_witness:
  "showPublishSettingsDialog
     \<lparr>localize = id, userStatus = (None :: string option),
      publishSettingsDialog = (\<lambda>u. Some (''title for '' @ u))\<rparr>
   = ([InvokeUserStatus,
       PublishShowPopup \<lparr>popupType = ''error'', popupHeader = ''popup.error'',
          popupMessage = ''popup.publish.please-log-in''\<rparr>], ReturnedFalse) \<and>
   publishedOf (fst (showPublishSettingsDialog
     \<lparr>localize = id, userStatus = Some ''ada'',
      publishSettingsDialog = (\<lambda>u. Some (''title for '' @ u))\<rparr>)) = [''title for ada'']"
proof -
  let ?d = "\<lambda>u::string. Some (''title for '' @ u)"
  let ?e1 = "\<lparr>localize = id, userStatus = (None :: string option), publishSettingsDialog = ?d\<rparr>"
  let ?e2 = "\<lparr>localize = id, userStatus = Some ''ada'', publishSettingsDialog = ?d\<rparr>"
  have a: "userStatus ?e1 = None" by simp
  have b: "userStatus ?e2 = Some ''ada'' \<and> publishSettingsDialog ?e2 ''ada'' = Some ''title for ada''"
    by simp
  from C4_publish_flow [of ?e1] a
  have 1: "snd (showPublishSettingsDialog ?e1) = ReturnedFalse"
    and 2: "publishPopupsOf (fst (showPublishSettingsDialog ?e1)) =
        [\<lparr>popupType = ''error'', popupHeader = ''popup.error'',
          popupMessage = ''popup.publish.please-log-in''\<rparr>]"
    by simp_all
  from C4_publish_flow [of ?e2 "''ada''" "''title for ada''"] b
  have 3: "publishedOf (fst (showPublishSettingsDialog ?e2)) = [''title for ada'']"
    by blast
  have 4: "fst (showPublishSettingsDialog ?e1) = [InvokeUserStatus,
       PublishShowPopup \<lparr>popupType = ''error'', popupHeader = ''popup.error'',
          popupMessage = ''popup.publish.please-log-in''\<rparr>]"
    by (simp add: showPublishSettingsDialog_def)
  from 1 3 4 show ?thesis by (simp add: prod_eq_iff)
qed

section \<open>Video export: results\<close>

lemma formatDescriptor_fst:
  "fst (formatDescriptor fmt cn) =
     (if fmt = ''webm'' then ''.webm'' else if fmt = ''mov'' then ''.mov''
      else if fmt = ''mkv'' then ''.mkv'' else ''.mp4'')"
  by (simp add: formatDescriptor_def)

lemma formatDescriptor_accept:
  "map accept (snd (formatDescriptor fmt cn)) =
     (if fmt = ''webm'' then [[(''video/webm'', [''.webm''])]]
      else if fmt = ''mov'' then [[(''video/quicktime'', [''.mov''])]]
      else if fmt = ''mkv'' then [[(''video/x-matroska'', [''.mkv''])]]
      else [[(''video/mp4'', [''.mp4''])]])"
  by (simp add: formatDescriptor_def)

lemma picker_called:
  "videoSettingsDialog env = Some vs \<Longrightarrow> showSaveFilePicker env = Some picker \<Longrightarrow>
     ShowSaveFilePicker (pickerOptions env vs) \<in> set (showVideoSettingsDialog env)"
  by (auto simp: showVideoSettingsDialog_def videoTry_def renderVideoStep_def Let_def
      split: sum.splits option.splits prod.splits shown.splits)

lemma removeExtension_suffix:
  "getExt (base @ e) = e \<Longrightarrow> removeExtension getExt (base @ e) = base"
  by (simp add: removeExtension_def)

lemma suggested_of_suffix:
  "docName env = Some (base @ e) \<Longrightarrow> pathGetExtension env (base @ e) = e \<Longrightarrow>
     suggested env vs = base @ fst (formatDescriptor (format vs) (codecName (codec vs)))"
  using removeExtension_suffix [of "pathGetExtension env" base e]
  by (simp add: suggested_def)






text \<open>
  A thrown null or undefined: the catch block throws while it reads the message,
  so there is no notification and the async function rejects.
\<close>

lemma thrown_nullish_rejects:
  "popupsOf (showVideoSettingsDialog
     \<lparr>videoSettingsDialog = Some \<lparr>format = ''mp4'', codec = ''h264''\<rparr>,
      docName = Some ''scene.ply'',
      pathGetExtension = getExtension,
      showSaveFilePicker = None,
      createWritable = (\<lambda>h. Inr (Writable 1)),
      renderVideo = (\<lambda>s w. Inl Nullish)\<rparr>) = [] \<and>
   showVideoSettingsDialogRejects
     \<lparr>videoSettingsDialog = Some \<lparr>format = ''mp4'', codec = ''h264''\<rparr>,
      docName = Some ''scene.ply'',
      pathGetExtension = getExtension,
      showSaveFilePicker = None,
      createWritable = (\<lambda>h. Inr (Writable 1)),
      renderVideo = (\<lambda>s w. Inl Nullish)\<rparr>"
  by (simp add: showVideoSettingsDialog_def showVideoSettingsDialogRejects_def videoTry_def
      renderVideoStep_def)

text \<open>
  C8: the if-chain on the requested format yields extension and MIME descriptor per
  the table: webm gives .webm and video/webm, mov gives .mov and video/quicktime,
  mkv gives .mkv and video/x-matroska, and every other format string gives .mp4 and
  video/mp4. The flow uses exactly this pair: the extension ends the suggested
  name, the descriptor is the \<^verbatim>\<open>types\<close> of the picker request, and that request is
  made whenever the dialog was confirmed and the host has a save picker.
\<close>

theorem C8_format_table:
  "fst (formatDescriptor ''webm'' cn) = ''.webm'' \<and>
   map accept (snd (formatDescriptor ''webm'' cn)) = [[(''video/webm'', [''.webm''])]] \<and>
   fst (formatDescriptor ''mov'' cn) = ''.mov'' \<and>
   map accept (snd (formatDescriptor ''mov'' cn)) = [[(''video/quicktime'', [''.mov''])]] \<and>
   fst (formatDescriptor ''mkv'' cn) = ''.mkv'' \<and>
   map accept (snd (formatDescriptor ''mkv'' cn)) = [[(''video/x-matroska'', [''.mkv''])]] \<and>
   (fmt \<noteq> ''webm'' \<and> fmt \<noteq> ''mov'' \<and> fmt \<noteq> ''mkv'' \<longrightarrow>
      fst (formatDescriptor fmt cn) = ''.mp4'' \<and>
      map accept (snd (formatDescriptor fmt cn)) = [[(''video/mp4'', [''.mp4''])]]) \<and>
   types (pickerOptions env vs) = snd (formatDescriptor (format vs) (codecName (codec vs))) \<and>
   suggestedName (pickerOptions env vs) =
     removeExtension (pathGetExtension env)
       (case docName env of None \<Rightarrow> ''supersplat'' | Some n \<Rightarrow> n)
     @ fst (formatDescriptor (format vs) (codecName (codec vs))) \<and>
   (videoSettingsDialog env = Some vs \<and> showSaveFilePicker env = Some picker \<longrightarrow>
      ShowSaveFilePicker (pickerOptions env vs) \<in> set (showVideoSettingsDialog env))"
  using picker_called [of env vs picker]
  by (simp add: pickerOptions_def suggested_def formatDescriptor_fst formatDescriptor_accept)

theorem C8_format_table_witness:
  "fst (formatDescriptor ''avi'' ''H.264'') = ''.mp4'' \<and>
   map accept (snd (formatDescriptor ''avi'' ''H.264'')) = [[(''video/mp4'', [''.mp4''])]] \<and>
   ShowSaveFilePicker
     \<lparr>pickerId = ''SuperSplatVideoFileExport'',
      types = [\<lparr>description = ''MP4 Video (H.264)'', accept = [(''video/mp4'', [''.mp4''])]\<rparr>],
      suggestedName = ''room.mp4''\<rparr>
   \<in> set (showVideoSettingsDialog
     \<lparr>videoSettingsDialog = Some \<lparr>format = ''avi'', codec = ''h264''\<rparr>,
      docName = Some ''room.ply'',
      pathGetExtension = getExtension,
      showSaveFilePicker = Some (\<lambda>opts. Inr (FileHandle 1)),
      createWritable = (\<lambda>h. Inr (Writable 1)),
      renderVideo = (\<lambda>s w. Inr ())\<rparr>)"
proof -
  let ?vs = "\<lparr>format = ''avi'', codec = ''h264''\<rparr>"
  let ?pick = "\<lambda>opts::picker_options. (Inr (FileHandle 1) :: thrown + file_handle)"
  let ?env = "\<lparr>videoSettingsDialog = Some ?vs,
      docName = Some ''room.ply'',
      pathGetExtension = getExtension,
      showSaveFilePicker = Some ?pick,
      createWritable = (\<lambda>h. Inr (Writable 1)),
      renderVideo = (\<lambda>s w. Inr ())\<rparr>"
  note t = C8_format_table [of "''H.264''" "''avi''" ?env ?vs ?pick]
  have ext: "getExtension ''room.ply'' = ''.ply''"
    by (simp add: getExtension_def lastSegment_def)
  have po: "pickerOptions ?env ?vs =
     \<lparr>pickerId = ''SuperSplatVideoFileExport'',
      types = [\<lparr>description = ''MP4 Video (H.264)'', accept = [(''video/mp4'', [''.mp4''])]\<rparr>],
      suggestedName = ''room.mp4''\<rparr>"
    by (simp add: pickerOptions_def suggested_def formatDescriptor_def codecName_def
        codecNames_def removeExtension_def ext)
  from t have "ShowSaveFilePicker (pickerOptions ?env ?vs) \<in> set (showVideoSettingsDialog ?env)"
    by simp
  with po have 1: "ShowSaveFilePicker
     \<lparr>pickerId = ''SuperSplatVideoFileExport'',
      types = [\<lparr>description = ''MP4 Video (H.264)'', accept = [(''video/mp4'', [''.mp4''])]\<rparr>],
      suggestedName = ''room.mp4''\<rparr> \<in> set (showVideoSettingsDialog ?env)"
    by simp
  from t have 2: "fst (formatDescriptor ''avi'' ''H.264'') = ''.mp4'' \<and>
   map accept (snd (formatDescriptor ''avi'' ''H.264'')) = [[(''video/mp4'', [''.mp4''])]]"
    by simp
  from 1 2 show ?thesis by blast
qed

text \<open>
  C9: the suggested filename is meant to be the document's name with its extension
  stripped, followed by the derived extension, and it is for the spec's example:
  with format mkv, codec h265 and the name scene.ply the picker request has the
  suggested name scene.mkv, the MIME video/x-matroska and the description
  "MKV Video (H.265)". But \<^verbatim>\<open>removeExtension\<close> cuts as many characters off the end of
  the name as \<^verbatim>\<open>path.getExtension\<close> returns, and that function looks at the part
  before a question mark only: for the name a?b, which has no extension, it
  returns .a and the suggestion is a.mkv instead of a?b.mkv; for
  scene.final?x.ply it returns .final and the suggestion is scene.final.mkv.
\<close>

theorem C9_suggested_name_question_mark:
  "suggested
     \<lparr>videoSettingsDialog = Some \<lparr>format = ''mkv'', codec = ''h265''\<rparr>,
      docName = Some ''a?b'',
      pathGetExtension = getExtension,
      showSaveFilePicker = None,
      createWritable = (\<lambda>h. Inr (Writable 1)),
      renderVideo = (\<lambda>s w. Inr ())\<rparr>
     \<lparr>format = ''mkv'', codec = ''h265''\<rparr> = ''a.mkv'' \<and>
   getExtension ''a?b'' = ''.a'' \<and>
   suggested
     \<lparr>videoSettingsDialog = Some \<lparr>format = ''mkv'', codec = ''h265''\<rparr>,
      docName = Some ''scene.final?x.ply'',
      pathGetExtension = getExtension,
      showSaveFilePicker = None,
      createWritable = (\<lambda>h. Inr (Writable 1)),
      renderVideo = (\<lambda>s w. Inr ())\<rparr>
     \<lparr>format = ''mkv'', codec = ''h265''\<rparr> = ''scene.final.mkv'' \<and>
   getExtension ''scene.final?x.ply'' = ''.final'' \<and>
   pickerOptions
     \<lparr>videoSettingsDialog = Some \<lparr>format = ''mkv'', codec = ''h265''\<rparr>,
      docName = Some ''scene.ply'',
      pathGetExtension = getExtension,
      showSaveFilePicker = None,
      createWritable = (\<lambda>h. Inr (Writable 1)),
      renderVideo = (\<lambda>s w. Inr ())\<rparr>
     \<lparr>format = ''mkv'', codec = ''h265''\<rparr> =
        \<lparr>pickerId = ''SuperSplatVideoFileExport'',
         types = [\<lparr>description = ''MKV Video (H.265)'',
                   accept = [(''video/x-matroska'', [''.mkv''])]\<rparr>],
         suggestedName = ''scene.mkv''\<rparr> \<and>
   codecName ''h265'' = ''H.265''"
proof -
  have e1: "getExtension ''a?b'' = ''.a''"
    and e2: "getExtension ''scene.final?x.ply'' = ''.final''"
    and e3: "getExtension ''scene.ply'' = ''.ply''"
    by (simp_all add: getExtension_def lastSegment_def)
  have cn: "codecName ''h265'' = ''H.265''"
    by (simp add: codecName_def codecNames_def)
  show ?thesis
    by (simp add: suggested_def pickerOptions_def removeExtension_def formatDescriptor_def
        e1 e2 e3 cn)
qed




end
